theory Spec2Isabelle
  imports Complex_Main
begin

section \<open>Data model (types.ts)\<close>

text \<open>
  \<^verbatim>\<open>GameState\<close> and \<^verbatim>\<open>StorySegment\<close> are the interfaces of types.ts. Optional
  fields (\<^verbatim>\<open>imagePrompt?\<close>, \<^verbatim>\<open>imageUrl?\<close>, \<^verbatim>\<open>isUser?\<close>) are options, \<open>None\<close> being
  the absent field. The fields \<^verbatim>\<open>id\<close> and \<^verbatim>\<open>text\<close> carry a suffix because the plain names
  are taken in Isabelle. \<^verbatim>\<open>timestamp\<close> is a reading of \<^verbatim>\<open>Date.now()\<close>, a natural number of
  milliseconds.
\<close>

record GameState =
  inventory :: "string list"
  currentQuest :: string
  health :: int
  location :: string

record StorySegment =
  id_seg :: string
  text_seg :: string
  imagePrompt :: "string option"
  imageUrl :: "string option"
  choices :: "string list"
  isUser :: "bool option"
  timestamp :: nat

datatype ImageSize = Size1K | Size2K | Size4K

text \<open>
  The shape that \<^verbatim>\<open>storySchema\<close> (services/gemini.ts) asks of the object that
  \<^verbatim>\<open>generateStorySegment\<close> returns, and that \<^verbatim>\<open>handleAction\<close> reads it at. \<^verbatim>\<open>new_quest\<close> is
  the only nullable field and the only one that is not required: \<open>None\<close> is \<^verbatim>\<open>null\<close> or
  the absent field.
\<close>

record StoryResult =
  narrative :: string
  inventory_add :: "string list"
  inventory_remove :: "string list"
  new_quest :: "string option"
  image_prompt :: string
  suggested_choices :: "string list"

section \<open>JavaScript values the code relies on\<close>

text \<open>
  A JavaScript \<^verbatim>\<open>Set\<close> of strings keeps its members in insertion order and holds each at
  most once; it is modelled as the list of its members in that order. \<^verbatim>\<open>add\<close> of a member
  already present changes nothing, \<^verbatim>\<open>delete\<close> removes the member if present,
  \<^verbatim>\<open>new Set(xs)\<close> adds the elements of \<open>xs\<close> one by one to the empty set, and
  \<^verbatim>\<open>Array.from\<close> reads the members in insertion order.
\<close>

definition Set_add :: "string list \<Rightarrow> string \<Rightarrow> string list" where
  "Set_add s x = (if x \<in> set s then s else s @ [x])"

definition Set_delete :: "string list \<Rightarrow> string \<Rightarrow> string list" where
  "Set_delete s x = filter (\<lambda>y. y \<noteq> x) s"

definition new_Set :: "string list \<Rightarrow> string list" where
  "new_Set xs = foldl Set_add [] xs"

definition Array_from :: "string list \<Rightarrow> string list" where
  "Array_from s = s"

text \<open>
  Truthiness of a value that is a string, \<^verbatim>\<open>null\<close> or \<^verbatim>\<open>undefined\<close>: only the non-empty
  string is truthy. \<^verbatim>\<open>a || b\<close> is \<open>a\<close> when \<open>a\<close> is truthy and \<open>b\<close> otherwise.
\<close>

fun truthy :: "string option \<Rightarrow> bool" where
  "truthy None = False"
| "truthy (Some s) = (s \<noteq> [])"

fun or_else :: "string option \<Rightarrow> string \<Rightarrow> string" where
  "or_else None d = d"
| "or_else (Some s) d = (if s \<noteq> [] then s else d)"

section \<open>Game state update (App.tsx, handleAction step 3)\<close>

text \<open>
  The updater passed to \<^verbatim>\<open>setGameState\<close>:
  \<^verbatim>\<open>
    prev => {
      const newInv = new Set(prev.inventory);
      result.inventory_add.forEach((item) => newInv.add(item));
      result.inventory_remove.forEach((item) => newInv.delete(item));
      return { ...prev, inventory: Array.from(newInv),
               currentQuest: result.new_quest || prev.currentQuest };
    }
  \<close>
  \<^verbatim>\<open>forEach\<close> is a left fold over the list.
\<close>

definition mergeInventory :: "string list \<Rightarrow> string list \<Rightarrow> string list \<Rightarrow> string list" where
  "mergeInventory cur adds removes =
     Array_from (foldl Set_delete (foldl Set_add (new_Set cur) adds) removes)"

definition updateGameState :: "StoryResult \<Rightarrow> GameState \<Rightarrow> GameState" where
  "updateGameState result prev =
     prev\<lparr>inventory := mergeInventory (inventory prev) (inventory_add result) (inventory_remove result),
          currentQuest := or_else (new_quest result) (currentQuest prev)\<rparr>"

section \<open>More JavaScript library functions\<close>

text \<open>
  \<^verbatim>\<open>Array.prototype.slice(start)\<close>: a negative \<open>start\<close> counts from the end and is clamped
  at the beginning of the array, a non-negative one is clamped at its end.
\<close>

definition slice_from :: "int \<Rightarrow> 'a list \<Rightarrow> 'a list" where
  "slice_from start xs =
     (let n = int (length xs);
          k = (if start < 0 then max (n + start) 0 else min start n)
      in drop (nat k) xs)"

text \<open>\<^verbatim>\<open>Array.prototype.join(sep)\<close> on an array of strings.\<close>

fun join :: "string \<Rightarrow> string list \<Rightarrow> string" where
  "join sep [] = []"
| "join sep [x] = x"
| "join sep (x # y # ys) = x @ sep @ join sep (y # ys)"

text \<open>
  \<^verbatim>\<open>Date.now().toString()\<close>: the decimal numeral of a natural number, without leading zeros.
\<close>

definition digit_char :: "nat \<Rightarrow> char" where
  "digit_char d = ''0123456789'' ! d"

function toString :: "nat \<Rightarrow> string" where
  "toString n = (if n < 10 then [digit_char n] else toString (n div 10) @ [digit_char (n mod 10)])"
  by pat_completeness auto
termination
  by (relation "measure (\<lambda>n. n)") auto

declare toString.simps [simp del]

text \<open>
  A template literal prints \<^verbatim>\<open>undefined\<close> for an absent value.
\<close>

fun template_str :: "string option \<Rightarrow> string" where
  "template_str None = ''undefined''"
| "template_str (Some s) = s"

section \<open>Backend client (services/gemini.ts)\<close>

text \<open>
  The generative service and its client library are outside the repository.
  \<^verbatim>\<open>getClient()\<close> runs \<^verbatim>\<open>new GoogleGenAI(...)\<close>, which either throws or returns a client;
  a call of the client's \<^verbatim>\<open>ai.models.generateContent\<close> is a promise that either rejects or
  resolves with a response. The model takes what \<^verbatim>\<open>getClient()\<close> does as a parameter
  named \<open>getClient\<close>: \<open>Inl e\<close> when the constructor throws, \<open>Inr generateContent\<close> when it
  returns a client, the client being the function from the request to the outcome of the
  call.
\<close>

datatype 'a outcome = Rejected | Resolved 'a

datatype error = ClientError | BackendError | NoTextError | SyntaxError | TypeError

text \<open>
  What \<^verbatim>\<open>JSON.parse\<close> returns: any JSON value. An object is the list of its properties.
\<close>

datatype json =
    JNull
  | JBool bool
  | JNum real
  | JStr string
  | JArr "json list"
  | JObj "(string \<times> json) list"

text \<open>
  The narrative request. The two prompt templates of \<^verbatim>\<open>generateStorySegment\<close> interpolate
  exactly four values: the joined context, the user action, the inventory and the quest;
  the request carries them as they are.
\<close>

record StoryRequest =
  req_context :: string
  req_action :: string
  req_inventory :: "string list"
  req_quest :: string

text \<open>
  The object literal that the \<^verbatim>\<open>catch\<close> block returns, as a JSON value
  (\<open>fallbackObject\<close>) and with its fields at the types of \<open>StoryResult\<close> (\<open>fallback\<close>).
\<close>

definition fallbackObject :: json where
  "fallbackObject =
     JObj [(''narrative'', JStr ''The mists of uncertainty cloud your vision... (AI Generation Error, please try again).''),
           (''inventory_add'', JArr []),
           (''inventory_remove'', JArr []),
           (''new_quest'', JNull),
           (''image_prompt'', JStr ''A foggy void of uncertainty.''),
           (''suggested_choices'', JArr [JStr ''Try again''])]"

definition fallback :: StoryResult where
  "fallback =
     \<lparr>narrative = ''The mists of uncertainty cloud your vision... (AI Generation Error, please try again).'',
      inventory_add = [],
      inventory_remove = [],
      new_quest = None,
      image_prompt = ''A foggy void of uncertainty.'',
      suggested_choices = [''Try again'']\<rparr>"

text \<open>
  The body of the \<^verbatim>\<open>try\<close> block of \<^verbatim>\<open>generateStorySegment\<close>. \<^verbatim>\<open>response.text\<close> is a string
  or \<^verbatim>\<open>undefined\<close> (here \<open>None\<close>); \<^verbatim>\<open>if (!text) throw\<close> raises for \<^verbatim>\<open>undefined\<close> and for
  the empty string. \<^verbatim>\<open>JSON.parse\<close> is the platform's: it is a parameter, \<open>None\<close> standing for
  the \<^verbatim>\<open>SyntaxError\<close> it throws on text that is not JSON. Whatever value it returns is
  returned as it is: the code does not compare it with \<^verbatim>\<open>storySchema\<close>.
\<close>

definition story_try ::
  "(string \<Rightarrow> json option) \<Rightarrow> (StoryRequest \<Rightarrow> string option outcome) \<Rightarrow> StoryRequest
     \<Rightarrow> error + json" where
  "story_try JSON_parse generateContent req =
     (case generateContent req of
        Rejected \<Rightarrow> Inl BackendError
      | Resolved None \<Rightarrow> Inl NoTextError
      | Resolved (Some text) \<Rightarrow>
          (if text = [] then Inl NoTextError
           else (case JSON_parse text of
                   None \<Rightarrow> Inl SyntaxError
                 | Some result \<Rightarrow> Inr result)))"

text \<open>
  \<^verbatim>\<open>generateStorySegment\<close>. Its first statement is \<^verbatim>\<open>const ai = getClient()\<close>, before the
  \<^verbatim>\<open>try\<close> block: when the constructor throws, the function raises (\<open>Inl\<close>). The context
  is \<^verbatim>\<open>history.slice(-6).join("\n")\<close>. Whatever the \<^verbatim>\<open>try\<close> block throws is caught and
  replaced by the fallback object.
\<close>

definition storyRequest :: "string list \<Rightarrow> string \<Rightarrow> string list \<Rightarrow> string \<Rightarrow> StoryRequest" where
  "storyRequest history userAction currentInventory quest =
     \<lparr>req_context = join [CHR 0x0A] (slice_from (- 6) history),
      req_action = userAction,
      req_inventory = currentInventory,
      req_quest = quest\<rparr>"

definition generateStorySegment ::
  "(string \<Rightarrow> json option) \<Rightarrow> (error + (StoryRequest \<Rightarrow> string option outcome))
     \<Rightarrow> string list \<Rightarrow> string \<Rightarrow> string list \<Rightarrow> string \<Rightarrow> error + json" where
  "generateStorySegment JSON_parse getClient history userAction currentInventory quest =
     (case getClient of
        Inl e \<Rightarrow> Inl e
      | Inr generateContent \<Rightarrow>
          (case story_try JSON_parse generateContent
                  (storyRequest history userAction currentInventory quest) of
             Inl e \<Rightarrow> Inr fallbackObject
           | Inr result \<Rightarrow> Inr result))"

text \<open>
  The failures of a narrative call that the \<^verbatim>\<open>try\<close> block meets, for stating properties:
  the promise rejects, the response has no text or an empty one, or the text is not JSON.
\<close>

fun story_failure :: "(string \<Rightarrow> json option) \<Rightarrow> string option outcome \<Rightarrow> bool" where
  "story_failure JSON_parse Rejected = True"
| "story_failure JSON_parse (Resolved None) = True"
| "story_failure JSON_parse (Resolved (Some t)) = (t = [] \<or> JSON_parse t = None)"

text \<open>
  The image response: \<^verbatim>\<open>response.candidates?.[0]?.content?.parts || []\<close>. Every link of the
  chain may be absent. A part is an image part when it has \<^verbatim>\<open>inlineData\<close>.
\<close>

record InlineData =
  mimeType :: "string option"
  data :: "string option"

record Part =
  inlineData :: "InlineData option"

record Content =
  parts :: "Part list option"

record Candidate =
  content :: "Content option"

record ImageResponse =
  candidates :: "Candidate list option"

record ImageRequest =
  img_scene :: string
  img_size :: ImageSize

definition response_parts :: "ImageResponse \<Rightarrow> Part list" where
  "response_parts response =
     (case candidates response of
        None \<Rightarrow> []
      | Some [] \<Rightarrow> []
      | Some (c # cs) \<Rightarrow>
          (case content c of
             None \<Rightarrow> []
           | Some ct \<Rightarrow> (case parts ct of None \<Rightarrow> [] | Some ps \<Rightarrow> ps)))"

text \<open>The \<^verbatim>\<open>for\<close> loop of \<^verbatim>\<open>generateSceneImage\<close>: the first part with inline data decides.\<close>

fun extract_image :: "Part list \<Rightarrow> string option" where
  "extract_image [] = None"
| "extract_image (part # rest) =
     (case inlineData part of
        Some d \<Rightarrow> Some (''data:'' @ template_str (mimeType d) @ '';base64,'' @ template_str (data d))
      | None \<Rightarrow> extract_image rest)"

definition image_try ::
  "(ImageRequest \<Rightarrow> ImageResponse outcome) \<Rightarrow> ImageRequest \<Rightarrow> error + string option" where
  "image_try generateContent req =
     (case generateContent req of
        Rejected \<Rightarrow> Inl BackendError
      | Resolved response \<Rightarrow> Inr (extract_image (response_parts response)))"

text \<open>
  \<^verbatim>\<open>generateSceneImage\<close>. As in \<^verbatim>\<open>generateStorySegment\<close>, \<^verbatim>\<open>getClient()\<close> is called before
  the \<^verbatim>\<open>try\<close> block, so a throwing constructor makes the function raise; what the
  \<^verbatim>\<open>try\<close> block throws is caught and \<^verbatim>\<open>null\<close> (here \<open>None\<close>) is returned.
\<close>

definition generateSceneImage ::
  "(error + (ImageRequest \<Rightarrow> ImageResponse outcome)) \<Rightarrow> string \<Rightarrow> ImageSize
     \<Rightarrow> error + string option" where
  "generateSceneImage getClient prompt imageSize =
     (case getClient of
        Inl e \<Rightarrow> Inl e
      | Inr generateContent \<Rightarrow>
          (case image_try generateContent \<lparr>img_scene = prompt, img_size = imageSize\<rparr> of
             Inl e \<Rightarrow> Inr None
           | Inr r \<Rightarrow> Inr r))"

text \<open>
  \<^verbatim>\<open>checkAndRequestApiKey\<close>. \<^verbatim>\<open>window.aistudio\<close> is injected by the host or absent; when
  present, \<^verbatim>\<open>hasSelectedApiKey()\<close> answers with a boolean. The function returns its boolean
  together with the hook calls it made, in order.
\<close>

record aistudio =
  hasSelectedApiKey :: bool

datatype hook_call = Call_hasSelectedApiKey | Call_openSelectKey

definition checkAndRequestApiKey :: "aistudio option \<Rightarrow> bool \<times> hook_call list" where
  "checkAndRequestApiKey window_aistudio =
     (case window_aistudio of
        Some h \<Rightarrow>
          (let hasKey = hasSelectedApiKey h in
           if \<not> hasKey then (True, [Call_hasSelectedApiKey, Call_openSelectKey])
           else (True, [Call_hasSelectedApiKey]))
      | None \<Rightarrow> (True, []))"

section \<open>Application state and turn controller (App.tsx)\<close>

text \<open>The state hooks of the \<^verbatim>\<open>App\<close> component, with their initial values.\<close>

record App =
  hasApiKey :: bool
  loading :: bool
  initializing :: bool
  gameState :: GameState
  storyLog :: "StorySegment list"
  currentChoices :: "string list"
  customInput :: string
  sidebarOpen :: bool
  imageResolution :: ImageSize

definition initialGameState :: GameState where
  "initialGameState =
     \<lparr>inventory = [], currentQuest = ''Awaken and find your purpose.'',
      health = 100, location = ''Unknown''\<rparr>"

definition initialApp :: App where
  "initialApp =
     \<lparr>hasApiKey = False, loading = False, initializing = False,
      gameState = initialGameState, storyLog = [], currentChoices = [''Look around''],
      customInput = [], sidebarOpen = False, imageResolution = Size1K\<rparr>"

text \<open>
  An image request that the controller fires without awaiting it: the segment id and the
  prompt given to \<^verbatim>\<open>generateImageForSegment\<close>.
\<close>

type_synonym image_call = "string \<times> string"

definition initialSegment :: "nat \<Rightarrow> StorySegment" where
  "initialSegment now =
     \<lparr>id_seg = ''init'',
      text_seg = ''You awaken in a dimly lit chamber. The air is cold and smells of ancient stone. Dust motes dance in a stray beam of light cutting through the darkness. You have no memory of how you arrived here.'',
      imagePrompt = None,
      imageUrl = None,
      choices = [''Search the room'', ''Call out for help'', ''Examine yourself''],
      isUser = None,
      timestamp = now\<rparr>"

text \<open>
  The initialization effect. \<open>init_continue\<close> is the part of \<^verbatim>\<open>init\<close> after
  \<^verbatim>\<open>await checkAndRequestApiKey()\<close>, given the boolean that call returned; \<open>init\<close> is the
  whole effect. \<open>now\<close> is the reading of \<^verbatim>\<open>Date.now()\<close>.
\<close>

definition init_continue :: "bool \<Rightarrow> nat \<Rightarrow> App \<Rightarrow> App \<times> image_call option" where
  "init_continue keySelected now s =
     (let s1 = s\<lparr>hasApiKey := keySelected\<rparr>;
          started =
            (if keySelected
             then (s1\<lparr>storyLog := [initialSegment now],
                      currentChoices := choices (initialSegment now)\<rparr>,
                   Some (id_seg (initialSegment now),
                         ''A dimly lit ancient stone chamber, cold atmosphere, dust motes in light beam.''))
             else (s1, None))
      in ((fst started)\<lparr>initializing := False\<rparr>, snd started))"

definition init :: "aistudio option \<Rightarrow> nat \<Rightarrow> App \<Rightarrow> App \<times> image_call option" where
  "init window_aistudio now s =
     init_continue (fst (checkAndRequestApiKey window_aistudio)) now (s\<lparr>initializing := True\<rparr>)"

text \<open>
  The render function shows the blocking prompt with the reload button when
  \<^verbatim>\<open>!hasApiKey && !initializing\<close>.
\<close>

definition reloadPromptShown :: "App \<Rightarrow> bool" where
  "reloadPromptShown s = (\<not> hasApiKey s \<and> \<not> initializing s)"

text \<open>
  \<^verbatim>\<open>handleAction\<close> suspends once, at \<^verbatim>\<open>await generateStorySegment(...)\<close>. \<open>handleAction_submit\<close>
  is the part before the suspension: the guard on \<^verbatim>\<open>loading\<close> (\<open>None\<close> is the early
  \<^verbatim>\<open>return\<close>), the user segment, and the arguments of the narrative call. \<open>t_id\<close> and
  \<open>t_stamp\<close> are the two readings of \<^verbatim>\<open>Date.now()\<close>. \<^verbatim>\<open>!s.isUser\<close> holds for an absent
  flag and for \<^verbatim>\<open>false\<close>. The handler reads \<^verbatim>\<open>loading\<close>, \<^verbatim>\<open>storyLog\<close> and \<^verbatim>\<open>gameState\<close>
  from the render it was created in; the component re-renders after every state update, so
  these are the values of the state \<open>s\<close> at which the action is submitted.
\<close>

record StoryCall =
  call_history :: "string list"
  call_action :: string
  call_inventory :: "string list"
  call_quest :: string

definition userSegment :: "nat \<Rightarrow> nat \<Rightarrow> string \<Rightarrow> StorySegment" where
  "userSegment t_id t_stamp action =
     \<lparr>id_seg = toString t_id @ ''-user'',
      text_seg = action,
      imagePrompt = None,
      imageUrl = None,
      choices = [],
      isUser = Some True,
      timestamp = t_stamp\<rparr>"

definition historyText :: "StorySegment list \<Rightarrow> string list" where
  "historyText segs =
     map text_seg (slice_from (- 5) (filter (\<lambda>s. isUser s \<noteq> Some True) segs))"

definition handleAction_submit :: "nat \<Rightarrow> nat \<Rightarrow> string \<Rightarrow> App \<Rightarrow> (App \<times> StoryCall) option" where
  "handleAction_submit t_id t_stamp action s =
     (if loading s then None
      else Some (s\<lparr>loading := True, storyLog := storyLog s @ [userSegment t_id t_stamp action]\<rparr>,
                 \<lparr>call_history = historyText (storyLog s),
                  call_action = action,
                  call_inventory = inventory (gameState s),
                  call_quest = currentQuest (gameState s)\<rparr>))"

text \<open>
  \<open>handleAction_resume\<close> is the part after the suspension, run on the state as it is when
  the narrative call has resolved with \<open>result\<close>: the state updaters of steps 3 and 4 are
  functional (\<^verbatim>\<open>prev => ...\<close>), so they apply to that state. It returns the image request
  of step 5, fired when \<^verbatim>\<open>result.image_prompt\<close> is truthy.
\<close>

definition newSegment :: "nat \<Rightarrow> nat \<Rightarrow> StoryResult \<Rightarrow> StorySegment" where
  "newSegment t_id t_stamp result =
     \<lparr>id_seg = toString t_id,
      text_seg = narrative result,
      imagePrompt = Some (image_prompt result),
      imageUrl = None,
      choices = suggested_choices result,
      isUser = None,
      timestamp = t_stamp\<rparr>"

definition handleAction_resume :: "nat \<Rightarrow> nat \<Rightarrow> StoryResult \<Rightarrow> App \<Rightarrow> App \<times> image_call option" where
  "handleAction_resume t_id t_stamp result s =
     (s\<lparr>gameState := updateGameState result (gameState s),
        storyLog := storyLog s @ [newSegment t_id t_stamp result],
        currentChoices := suggested_choices result,
        loading := False,
        customInput := []\<rparr>,
      if truthy (Some (image_prompt result))
      then Some (toString t_id, image_prompt result) else None)"

text \<open>
  How \<^verbatim>\<open>handleAction\<close> reads the value \<^verbatim>\<open>result\<close> that the narrative call returned, which
  is typed \<^verbatim>\<open>any\<close>. A property of a value that is not an object is \<^verbatim>\<open>undefined\<close>, and a
  property access on \<^verbatim>\<open>null\<close> raises. Step 3 calls \<^verbatim>\<open>forEach\<close> on
  \<^verbatim>\<open>result.inventory_add\<close> and on \<^verbatim>\<open>result.inventory_remove\<close>, which raises a
  \<^verbatim>\<open>TypeError\<close> unless the property is an array. The other properties are stored without
  being looked at. \<open>Typed\<close> is the case where every property has a value of the type
  that \<open>StoryResult\<close> and the state give it (\<^verbatim>\<open>new_quest\<close> absent, \<^verbatim>\<open>null\<close>, or another falsy
  value is a null quest, since it is only read through \<^verbatim>\<open>||\<close>); \<open>Ill_typed\<close> is the case
  where nothing raises but a value of another type would be stored, which the typed state
  of this model cannot hold and the model does not follow.
\<close>

datatype 'a reading = Raise error | Typed 'a | Ill_typed

fun is_array :: "json option \<Rightarrow> bool" where
  "is_array (Some (JArr vs)) = True"
| "is_array v = False"

fun js_string :: "json option \<Rightarrow> string option" where
  "js_string (Some (JStr s)) = Some s"
| "js_string v = None"

fun js_strings_of :: "json list \<Rightarrow> string list option" where
  "js_strings_of [] = Some []"
| "js_strings_of (JStr s # vs) =
     (case js_strings_of vs of None \<Rightarrow> None | Some ss \<Rightarrow> Some (s # ss))"
| "js_strings_of (v # vs) = None"

fun js_string_array :: "json option \<Rightarrow> string list option" where
  "js_string_array (Some (JArr vs)) = js_strings_of vs"
| "js_string_array v = None"

fun js_quest :: "json option \<Rightarrow> string option option" where
  "js_quest None = Some None"
| "js_quest (Some JNull) = Some None"
| "js_quest (Some (JBool b)) = (if b then None else Some None)"
| "js_quest (Some (JNum x)) = (if x = 0 then Some None else None)"
| "js_quest (Some (JStr q)) = Some (Some q)"
| "js_quest (Some v) = None"

definition typedFields :: "(string \<Rightarrow> json option) \<Rightarrow> StoryResult option" where
  "typedFields field =
     (case js_string (field ''narrative'') of None \<Rightarrow> None | Some n \<Rightarrow>
      case js_string_array (field ''inventory_add'') of None \<Rightarrow> None | Some adds \<Rightarrow>
      case js_string_array (field ''inventory_remove'') of None \<Rightarrow> None | Some removes \<Rightarrow>
      case js_quest (field ''new_quest'') of None \<Rightarrow> None | Some q \<Rightarrow>
      case js_string (field ''image_prompt'') of None \<Rightarrow> None | Some p \<Rightarrow>
      case js_string_array (field ''suggested_choices'') of None \<Rightarrow> None | Some cs \<Rightarrow>
        Some \<lparr>narrative = n, inventory_add = adds, inventory_remove = removes,
              new_quest = q, image_prompt = p, suggested_choices = cs\<rparr>)"

definition resultFields :: "json \<Rightarrow> StoryResult reading" where
  "resultFields result =
     (case result of
        JObj props \<Rightarrow>
          (if is_array (map_of props ''inventory_add'') \<and> is_array (map_of props ''inventory_remove'')
           then (case typedFields (map_of props) of None \<Rightarrow> Ill_typed | Some r \<Rightarrow> Typed r)
           else Raise TypeError)
      | _ \<Rightarrow> Raise TypeError)"

text \<open>
  A whole turn during which nothing else touches the state: both parts of \<^verbatim>\<open>handleAction\<close>
  around the narrative call. \<open>t1\<close> to \<open>t4\<close> are the four readings of \<^verbatim>\<open>Date.now()\<close> in
  program order. The handler has no \<^verbatim>\<open>try\<close>: \<open>Completed\<close> is a run to the end, with the
  final state and the image request fired; \<open>Stopped\<close> is the handler rejected at the
  \<^verbatim>\<open>await\<close> because \<^verbatim>\<open>generateStorySegment\<close> raised, with the state it leaves behind (the
  user segment appended, \<^verbatim>\<open>loading\<close> still set); \<open>Raised\<close> is the \<^verbatim>\<open>TypeError\<close> of the
  updater of step 3, after which the model does not say what is left of the state;
  \<open>Outside_types\<close> is the \<open>Ill_typed\<close> case above.
\<close>

datatype turn =
    Completed App "image_call option"
  | Stopped error App
  | Raised error
  | Outside_types

definition handleAction ::
  "(string \<Rightarrow> json option) \<Rightarrow> (error + (StoryRequest \<Rightarrow> string option outcome))
     \<Rightarrow> nat \<Rightarrow> nat \<Rightarrow> nat \<Rightarrow> nat \<Rightarrow> string \<Rightarrow> App \<Rightarrow> turn" where
  "handleAction JSON_parse getClient t1 t2 t3 t4 action s =
     (case handleAction_submit t1 t2 action s of
        None \<Rightarrow> Completed s None
      | Some (s1, call) \<Rightarrow>
          (case generateStorySegment JSON_parse getClient
                  (call_history call) (call_action call) (call_inventory call) (call_quest call) of
             Inl e \<Rightarrow> Stopped e s1
           | Inr result \<Rightarrow>
               (case resultFields result of
                  Raise e \<Rightarrow> Raised e
                | Ill_typed \<Rightarrow> Outside_types
                | Typed r \<Rightarrow>
                    Completed (fst (handleAction_resume t3 t4 r s1))
                              (snd (handleAction_resume t3 t4 r s1)))))"

text \<open>
  \<^verbatim>\<open>generateImageForSegment\<close>. \<open>generateImageForSegment_resume\<close> is the part after
  \<^verbatim>\<open>await generateSceneImage(...)\<close>, given what that call returned (\<open>None\<close> is \<^verbatim>\<open>null\<close>);
  \<^verbatim>\<open>if (imageUrl)\<close> is the truthiness test. In the whole function, \<open>resolution\<close> is the
  \<^verbatim>\<open>imageResolution\<close> of the render that created the handler, and the function raises
  when \<^verbatim>\<open>generateSceneImage\<close> does, leaving the state as it is.
\<close>

definition generateImageForSegment_resume :: "string \<Rightarrow> string option \<Rightarrow> App \<Rightarrow> App" where
  "generateImageForSegment_resume segmentId url s =
     (if truthy url
      then s\<lparr>storyLog :=
               map (\<lambda>seg. if id_seg seg = segmentId then seg\<lparr>imageUrl := url\<rparr> else seg)
                 (storyLog s)\<rparr>
      else s)"


section \<open>Sessions\<close>

text \<open>
  What can happen to the state after initialization: an action is submitted, the
  outstanding narrative call resolves, or an image call resolves. A narrative call can
  only resolve while one is outstanding, which is while \<^verbatim>\<open>loading\<close> is set.
\<close>

datatype event =
    Submit nat nat string
  | NarrativeResolved nat nat StoryResult
  | ImageResolved string "string option"

fun step :: "App \<Rightarrow> event \<Rightarrow> App" where
  "step s (Submit t_id t_stamp action) =
     (case handleAction_submit t_id t_stamp action s of None \<Rightarrow> s | Some (s1, call) \<Rightarrow> s1)"
| "step s (NarrativeResolved t_id t_stamp result) =
     (if loading s then fst (handleAction_resume t_id t_stamp result s) else s)"
| "step s (ImageResolved segmentId url) = generateImageForSegment_resume segmentId url s"

definition run :: "event list \<Rightarrow> App \<Rightarrow> App" where
  "run evs s = foldl step s evs"

definition session :: "aistudio option \<Rightarrow> nat \<Rightarrow> event list \<Rightarrow> App" where
  "session window_aistudio now evs = run evs (fst (init window_aistudio now initialApp))"

text \<open>
  The clock readings from which a session's events take segment ids: one per submission
  (the user segment's id) and one per narrative resolution (the narrative segment's id).
\<close>

fun submit_reading :: "event \<Rightarrow> nat list" where
  "submit_reading (Submit t_id t_stamp action) = [t_id]"
| "submit_reading e = []"

fun resolve_reading :: "event \<Rightarrow> nat list" where
  "resolve_reading (NarrativeResolved t_id t_stamp result) = [t_id]"
| "resolve_reading e = []"

definition submit_readings :: "event list \<Rightarrow> nat list" where
  "submit_readings evs = concat (map submit_reading evs)"

definition resolve_readings :: "event list \<Rightarrow> nat list" where
  "resolve_readings evs = concat (map resolve_reading evs)"

text \<open>
  The ids that a session's events can give to segments: the fixed id of the initial
  segment, the reading with the suffix for a submission, the bare reading for a narrative
  resolution.
\<close>

definition ids_from :: "event list \<Rightarrow> string set" where
  "ids_from evs =
     {''init''} \<union> (\<lambda>t. toString t @ ''-user'') ` set (submit_readings evs)
       \<union> toString ` set (resolve_readings evs)"

text \<open>
  An event whose delta, if it has one, carries a null quest.
\<close>

fun null_quest_event :: "event \<Rightarrow> bool" where
  "null_quest_event (NarrativeResolved t_id t_stamp result) = (new_quest result = None)"
| "null_quest_event e = True"


section \<open>Example values\<close>

text \<open>Concrete states, deltas and services at which the theorems below are instantiated.\<close>

definition torchDelta :: StoryResult where
  "torchDelta =
     \<lparr>narrative = ''The torch gutters out.'',
      inventory_add = [''torch'', ''rusty key''],
      inventory_remove = [''torch''],
      new_quest = None,
      image_prompt = ''A dark corridor.'',
      suggested_choices = [''Use key'', ''Leave'']\<rparr>"

definition emptyQuestDelta :: StoryResult where
  "emptyQuestDelta =
     \<lparr>narrative = ''Nothing happens.'',
      inventory_add = [],
      inventory_remove = [],
      new_quest = Some [],
      image_prompt = ''An empty room.'',
      suggested_choices = [''Wait'']\<rparr>"

definition questDelta :: StoryResult where
  "questDelta =
     \<lparr>narrative = ''A door opens.'',
      inventory_add = [''rusty key''],
      inventory_remove = [],
      new_quest = Some ''Find the exit.'',
      image_prompt = ''An open door.'',
      suggested_choices = [''Go through'']\<rparr>"

definition torchState :: GameState where
  "torchState = initialGameState\<lparr>inventory := [''torch'']\<rparr>"

definition startedApp :: App where
  "startedApp = fst (init None 0 initialApp)"

definition awaitingApp :: App where
  "awaitingApp = step startedApp (Submit 1000 1000 ''Search the room'')"

definition failingParse :: "string \<Rightarrow> json option" where
  "failingParse t = None"

definition emptyObjectParse :: "string \<Rightarrow> json option" where
  "emptyObjectParse t = (if t = ''{}'' then Some (JObj []) else None)"

definition emptyObjectService :: "StoryRequest \<Rightarrow> string option outcome" where
  "emptyObjectService req = Resolved (Some ''{}'')"

definition afterFirstTurn :: App where
  "afterFirstTurn =
     run [Submit 1000 1000 ''Search the room'', NarrativeResolved 1200 1200 fallback] startedApp"

definition afterSecondTurn :: App where
  "afterSecondTurn =
     run [Submit 1200 1200 ''Try again'', NarrativeResolved 1200 1200 fallback] afterFirstTurn"

definition failingService :: "StoryRequest \<Rightarrow> string option outcome" where
  "failingService req = Rejected"

definition longApp :: App where
  "longApp =
     run [Submit 1000 1000 ''Search the room'', NarrativeResolved 1200 1200 torchDelta,
          Submit 2000 2000 ''Use key'', NarrativeResolved 2200 2200 questDelta,
          Submit 3000 3000 ''Go through'', NarrativeResolved 3200 3200 emptyQuestDelta,
          Submit 4000 4000 ''Wait'', NarrativeResolved 4200 4200 fallback,
          Submit 5000 5000 ''Try again'', NarrativeResolved 5200 5200 torchDelta]
       startedApp"







section \<open>Properties of the inventory merge\<close>

lemma set_foldl_Set_add: "set (foldl Set_add s xs) = set s \<union> set xs"
  by (induction xs arbitrary: s) (auto simp: Set_add_def)

lemma distinct_foldl_Set_add: "distinct s \<Longrightarrow> distinct (foldl Set_add s xs)"
  by (induction xs arbitrary: s) (auto simp: Set_add_def)

lemma set_foldl_Set_delete: "set (foldl Set_delete s xs) = set s - set xs"
  by (induction xs arbitrary: s) (auto simp: Set_delete_def)

lemma distinct_foldl_Set_delete: "distinct s \<Longrightarrow> distinct (foldl Set_delete s xs)"
  by (induction xs arbitrary: s) (auto simp: Set_delete_def)

lemma set_new_Set: "set (new_Set xs) = set xs"
  by (simp add: new_Set_def set_foldl_Set_add)

lemma distinct_new_Set: "distinct (new_Set xs)"
  by (simp add: new_Set_def distinct_foldl_Set_add)

lemma foldl_Set_add_fresh: "distinct (s @ xs) \<Longrightarrow> foldl Set_add s xs = s @ xs"
  by (induction xs arbitrary: s) (auto simp: Set_add_def)

lemma new_Set_distinct: "distinct xs \<Longrightarrow> new_Set xs = xs"
  using foldl_Set_add_fresh [of "[]" xs] by (simp add: new_Set_def)

lemma set_mergeInventory: "set (mergeInventory cur adds removes) = (set cur \<union> set adds) - set removes"
  by (simp add: mergeInventory_def Array_from_def set_foldl_Set_delete set_foldl_Set_add set_new_Set)

lemma distinct_mergeInventory: "distinct (mergeInventory cur adds removes)"
  by (simp add: mergeInventory_def Array_from_def distinct_foldl_Set_delete
      distinct_foldl_Set_add distinct_new_Set)

lemma mergeInventory_empty_delta: "distinct cur \<Longrightarrow> mergeInventory cur [] [] = cur"
  by (simp add: mergeInventory_def Array_from_def new_Set_distinct)

text \<open>
  Claim C1. For every current inventory and every delta, the inventory after the update is,
  as a set, exactly (current \<union> add) \ remove; it has no duplicates; and an item named in the
  delta's remove list is absent from it, also when the same delta's add list names it.
\<close>

theorem C1_inventory_merge:
  "set (inventory (updateGameState result prev))
     = (set (inventory prev) \<union> set (inventory_add result)) - set (inventory_remove result)
   \<and> distinct (inventory (updateGameState result prev))
   \<and> (\<forall>x \<in> set (inventory_remove result). x \<notin> set (inventory (updateGameState result prev)))"
  by (simp add: updateGameState_def set_mergeInventory distinct_mergeInventory)

theorem C1_inventory_merge_witness:
  "''torch'' \<in> set (inventory_remove torchDelta)
   \<and> ''torch'' \<in> set (inventory_add torchDelta)
   \<and> ''torch'' \<notin> set (inventory (updateGameState torchDelta torchState))
   \<and> set (inventory (updateGameState torchDelta torchState)) = {''rusty key''}"
  using C1_inventory_merge [of torchDelta torchState]
  by (auto simp: torchDelta_def torchState_def initialGameState_def)

section \<open>Quest update\<close>

lemma currentQuest_updateGameState:
  "currentQuest (updateGameState r g) = or_else (new_quest r) (currentQuest g)"
  by (simp add: updateGameState_def)

lemma gameState_resume:
  "gameState (fst (handleAction_resume t1 t2 r s)) = updateGameState r (gameState s)"
  by (simp add: handleAction_resume_def)

lemma quest_step_null:
  "null_quest_event e \<Longrightarrow> currentQuest (gameState (step s e)) = currentQuest (gameState s)"
  by (cases e)
     (auto simp: handleAction_submit_def handleAction_resume_def generateImageForSegment_resume_def
        updateGameState_def)

lemma quest_run_null:
  "\<forall>e \<in> set evs. null_quest_event e \<Longrightarrow>
     currentQuest (gameState (run evs s)) = currentQuest (gameState s)"
  unfolding run_def
  by (induction evs arbitrary: s) (simp_all add: quest_step_null)

text \<open>
  Claim C2, as stated, fails: a delta whose quest is the empty string is non-null and
  leaves the quest as it was.
\<close>

theorem C2_counterexample:
  "new_quest emptyQuestDelta \<noteq> None
   \<and> currentQuest (gameState (fst (handleAction_resume 1200 1200 emptyQuestDelta awaitingApp)))
       = currentQuest (gameState awaitingApp)"
  by (simp add: emptyQuestDelta_def gameState_resume currentQuest_updateGameState)

text \<open>
  Claim C2, amended. After a turn the quest is the delta's quest string when that string is
  non-null and non-empty; so the quest changes only if the delta carries a non-null quest
  string, it is unchanged when the delta's quest is null, and any sequence of events whose
  deltas all carry a null quest leaves the quest equal to its original value.
\<close>

theorem C2_quest_update:
  "(currentQuest (gameState (fst (handleAction_resume t1 t2 r s))) \<noteq> currentQuest (gameState s)
      \<longrightarrow> (\<exists>q. new_quest r = Some q \<and> q \<noteq> []
                \<and> currentQuest (gameState (fst (handleAction_resume t1 t2 r s))) = q))
   \<and> (\<forall>q. new_quest r = Some q \<and> q \<noteq> []
          \<longrightarrow> currentQuest (gameState (fst (handleAction_resume t1 t2 r s))) = q)
   \<and> (new_quest r = None
        \<longrightarrow> currentQuest (gameState (fst (handleAction_resume t1 t2 r s)))
              = currentQuest (gameState s))
   \<and> ((\<forall>e \<in> set evs. null_quest_event e)
        \<longrightarrow> currentQuest (gameState (run evs s)) = currentQuest (gameState s))"
  by (cases "new_quest r") (auto simp: gameState_resume currentQuest_updateGameState quest_run_null)

theorem C2_quest_update_witness:
  "new_quest questDelta = Some ''Find the exit.''
   \<and> currentQuest (gameState (fst (handleAction_resume 1200 1200 questDelta awaitingApp)))
       = ''Find the exit.''
   \<and> currentQuest (gameState (fst (handleAction_resume 1200 1200 questDelta awaitingApp)))
       \<noteq> currentQuest (gameState awaitingApp)
   \<and> new_quest torchDelta = None
   \<and> currentQuest (gameState (fst (handleAction_resume 1200 1200 torchDelta awaitingApp)))
       = currentQuest (gameState awaitingApp)
   \<and> null_quest_event (NarrativeResolved 1200 1200 torchDelta)
   \<and> null_quest_event (Submit 1300 1300 ''Leave'')
   \<and> null_quest_event (NarrativeResolved 1400 1400 fallback)
   \<and> currentQuest (gameState (run [NarrativeResolved 1200 1200 torchDelta, Submit 1300 1300 ''Leave'',
                   NarrativeResolved 1400 1400 fallback] awaitingApp))
       = currentQuest (gameState awaitingApp)"
  using C2_quest_update [of 1200 1200 questDelta awaitingApp "[]"]
        C2_quest_update [of 1200 1200 torchDelta awaitingApp
          "[NarrativeResolved 1200 1200 torchDelta, Submit 1300 1300 ''Leave'',
            NarrativeResolved 1400 1400 fallback]"]
  by (simp add: questDelta_def torchDelta_def fallback_def awaitingApp_def startedApp_def
        init_def init_continue_def checkAndRequestApiKey_def initialApp_def initialGameState_def
        handleAction_submit_def)


lemma or_else_nonempty: "d \<noteq> [] \<Longrightarrow> or_else q d \<noteq> []"
  by (cases q) auto

lemma quest_step_nonempty:
  "currentQuest (gameState s) \<noteq> [] \<Longrightarrow> currentQuest (gameState (step s e)) \<noteq> []"
  by (cases e)
     (auto simp: handleAction_submit_def handleAction_resume_def generateImageForSegment_resume_def
        currentQuest_updateGameState or_else_nonempty)

lemma quest_run_nonempty:
  "currentQuest (gameState s) \<noteq> [] \<Longrightarrow> currentQuest (gameState (run evs s)) \<noteq> []"
  unfolding run_def
  by (induction evs arbitrary: s) (simp_all add: quest_step_nonempty)

lemma gameState_init: "gameState (fst (init w now s)) = gameState s"
  by (simp add: init_def init_continue_def Let_def)

text \<open>
  Claim C10. A delta whose quest is the empty string updates the game state exactly as the
  same delta with a null quest does, and leaves the quest unchanged; and in every session,
  which starts from the non-empty initial quest, the quest is never the empty string.
\<close>

theorem C10_empty_quest_ignored:
  "updateGameState (r\<lparr>new_quest := Some []\<rparr>) g = updateGameState (r\<lparr>new_quest := None\<rparr>) g
   \<and> currentQuest (updateGameState (r\<lparr>new_quest := Some []\<rparr>) g) = currentQuest g
   \<and> currentQuest (gameState (fst (handleAction_resume t_id t_stamp (r\<lparr>new_quest := Some []\<rparr>) s)))
       = currentQuest (gameState s)
   \<and> currentQuest (gameState (session w now evs)) \<noteq> []"
proof -
  have "currentQuest (gameState (fst (init w now initialApp))) \<noteq> []"
    by (simp add: gameState_init initialApp_def initialGameState_def)
  then have "currentQuest (gameState (session w now evs)) \<noteq> []"
    unfolding session_def by (rule quest_run_nonempty)
  then show ?thesis
    by (simp add: updateGameState_def handleAction_resume_def)
qed

section \<open>Narrative call and its fallback\<close>

lemma story_try_failure:
  "story_failure P (G req) \<Longrightarrow> \<exists>e. story_try P G req = Inl e"
proof (cases "G req")
  case Rejected
  then show ?thesis by (simp add: story_try_def)
next
  case (Resolved resp)
  assume f: "story_failure P (G req)"
  show ?thesis
  proof (cases resp)
    case None
    with Resolved show ?thesis by (simp add: story_try_def)
  next
    case (Some t)
    with Resolved f show ?thesis by (auto simp: story_try_def)
  qed
qed

lemma story_try_success:
  "\<not> story_failure P (G req) \<Longrightarrow>
     \<exists>t v. G req = Resolved (Some t) \<and> P t = Some v \<and> story_try P G req = Inr v"
proof (cases "G req")
  case Rejected
  assume "\<not> story_failure P (G req)"
  with Rejected show ?thesis by simp
next
  case (Resolved resp)
  assume f: "\<not> story_failure P (G req)"
  show ?thesis
  proof (cases resp)
    case None
    with Resolved f show ?thesis by simp
  next
    case (Some t)
    with Resolved f show ?thesis by (auto simp: story_try_def)
  qed
qed

lemma generateStorySegment_failure:
  "story_failure P (G (storyRequest h a i q)) \<Longrightarrow>
     generateStorySegment P (Inr G) h a i q = Inr fallbackObject"
  using story_try_failure [of P G "storyRequest h a i q"]
  by (auto simp: generateStorySegment_def)

lemma generateStorySegment_success:
  "\<not> story_failure P (G (storyRequest h a i q)) \<Longrightarrow>
     \<exists>t v. G (storyRequest h a i q) = Resolved (Some t) \<and> P t = Some v
           \<and> generateStorySegment P (Inr G) h a i q = Inr v"
  using story_try_success [of P G "storyRequest h a i q"]
  by (auto simp: generateStorySegment_def)

lemma resultFields_fallbackObject: "resultFields fallbackObject = Typed fallback"
  by (simp add: resultFields_def fallbackObject_def typedFields_def fallback_def)

lemma updateGameState_fallback:
  "distinct (inventory g) \<Longrightarrow> updateGameState fallback g = g"
  by (simp add: updateGameState_def fallback_def mergeInventory_empty_delta)

lemma handleAction_idle_fallback:
  "\<not> loading s \<Longrightarrow>
   story_failure P (G (storyRequest (historyText (storyLog s)) act
      (inventory (gameState s)) (currentQuest (gameState s)))) \<Longrightarrow>
     handleAction P (Inr G) t1 t2 t3 t4 act s =
       Completed
         (fst (handleAction_resume t3 t4 fallback
                 (s\<lparr>loading := True, storyLog := storyLog s @ [userSegment t1 t2 act]\<rparr>)))
         (snd (handleAction_resume t3 t4 fallback
                 (s\<lparr>loading := True, storyLog := storyLog s @ [userSegment t1 t2 act]\<rparr>)))"
  by (simp add: handleAction_def handleAction_submit_def generateStorySegment_failure
      resultFields_fallbackObject)

text \<open>
  Claim C3, as stated, fails. A response text that parses but does not have the shape of
  the schema (here the empty object) is returned as parsed, not replaced by the fallback,
  and the turn then raises a \<^verbatim>\<open>TypeError\<close> at \<^verbatim>\<open>result.inventory_add.forEach\<close>; and when
  the client constructor throws, \<open>generateStorySegment\<close> raises and the turn stops with
  \<open>loading\<close> still set.
\<close>

theorem C3_counterexample:
  "emptyObjectService (storyRequest [] ''Search the room'' [] ''Awaken and find your purpose.'')
     = Resolved (Some ''{}'')
   \<and> emptyObjectParse ''{}'' = Some (JObj [])
   \<and> generateStorySegment emptyObjectParse (Inr emptyObjectService)
        [] ''Search the room'' [] ''Awaken and find your purpose.'' = Inr (JObj [])
   \<and> JObj [] \<noteq> fallbackObject
   \<and> handleAction emptyObjectParse (Inr emptyObjectService) 1000 1000 1200 1200
        ''Search the room'' startedApp = Raised TypeError
   \<and> generateStorySegment failingParse (Inl ClientError)
        [] ''Search the room'' [] ''Awaken and find your purpose.'' = Inl ClientError
   \<and> handleAction failingParse (Inl ClientError) 1000 1000 1200 1200
        ''Search the room'' startedApp = Stopped ClientError awaitingApp
   \<and> loading awaitingApp"
  by (simp add: emptyObjectService_def emptyObjectParse_def generateStorySegment_def
        story_try_def fallbackObject_def handleAction_def handleAction_submit_def
        resultFields_def awaitingApp_def startedApp_def init_def init_continue_def
        checkAndRequestApiKey_def initialApp_def)

text \<open>
  Claim C3, amended. Once the client handle has been constructed, \<open>generateStorySegment\<close>
  does not raise: when the narrative call fails inside the \<^verbatim>\<open>try\<close> block (the promise
  rejects, the response text is missing or empty, or the text is not parseable JSON) it
  returns exactly the fixed fallback object, and otherwise it returns the parsed value as
  it is, without validation. The fallback has the uncertainty narrative, empty add and
  remove lists, a null quest, the generic image prompt and the single choice "Try again".
  A turn driven by a failing call, submitted when no call is outstanding and on a
  duplicate-free inventory, completes, leaves the game state (inventory and quest)
  unchanged, appends the user segment and one fallback segment, and makes "Try again" the
  only active choice.
\<close>

theorem C3_story_fallback:
  "(story_failure P (G (storyRequest h a i q))
      \<longrightarrow> generateStorySegment P (Inr G) h a i q = Inr fallbackObject)
   \<and> (\<not> story_failure P (G (storyRequest h a i q)) \<longrightarrow>
        (\<exists>t v. G (storyRequest h a i q) = Resolved (Some t) \<and> P t = Some v
              \<and> generateStorySegment P (Inr G) h a i q = Inr v))
   \<and> resultFields fallbackObject = Typed fallback
   \<and> narrative fallback
        = ''The mists of uncertainty cloud your vision... (AI Generation Error, please try again).''
   \<and> inventory_add fallback = [] \<and> inventory_remove fallback = [] \<and> new_quest fallback = None
   \<and> image_prompt fallback = ''A foggy void of uncertainty.''
   \<and> suggested_choices fallback = [''Try again'']
   \<and> (\<not> loading s \<and> distinct (inventory (gameState s))
        \<and> story_failure P (G (storyRequest (historyText (storyLog s)) act
               (inventory (gameState s)) (currentQuest (gameState s))))
       \<longrightarrow> (\<exists>s' c. handleAction P (Inr G) t1 t2 t3 t4 act s = Completed s' c
             \<and> gameState s' = gameState s
             \<and> storyLog s' = storyLog s @ [userSegment t1 t2 act, newSegment t3 t4 fallback]
             \<and> currentChoices s' = [''Try again'']
             \<and> \<not> loading s'))
   \<and> (distinct (inventory (gameState s))
       \<longrightarrow> gameState (fst (handleAction_resume t3 t4 fallback s)) = gameState s)"
proof -
  have resume: "distinct (inventory (gameState s))
       \<longrightarrow> gameState (fst (handleAction_resume t3 t4 fallback s)) = gameState s"
    by (simp add: handleAction_resume_def updateGameState_fallback)
  have turn: "\<exists>s' c. handleAction P (Inr G) t1 t2 t3 t4 act s = Completed s' c
             \<and> gameState s' = gameState s
             \<and> storyLog s' = storyLog s @ [userSegment t1 t2 act, newSegment t3 t4 fallback]
             \<and> currentChoices s' = [''Try again'']
             \<and> \<not> loading s'"
    if idle: "\<not> loading s" and d: "distinct (inventory (gameState s))"
      and f: "story_failure P (G (storyRequest (historyText (storyLog s)) act
               (inventory (gameState s)) (currentQuest (gameState s))))"
  proof -
    have u: "updateGameState fallback (gameState s) = gameState s"
      using d by (rule updateGameState_fallback)
    have c: "suggested_choices fallback = [''Try again'']"
      by (simp add: fallback_def)
    show ?thesis
      by (simp add: handleAction_idle_fallback [where P = P and G = G, OF idle f]
          handleAction_resume_def u c)
  qed
  show ?thesis
    using generateStorySegment_failure [of P G h a i q]
          generateStorySegment_success [of P G h a i q] turn resume
    by (simp add: fallback_def resultFields_fallbackObject)
qed

theorem C3_story_fallback_witness:
  "story_failure failingParse (failingService (storyRequest [] ''Search the room'' [] ''Awaken and find your purpose.''))
   \<and> generateStorySegment failingParse (Inr failingService) [] ''Search the room'' []
        ''Awaken and find your purpose.'' = Inr fallbackObject
   \<and> \<not> loading startedApp \<and> distinct (inventory (gameState startedApp))
   \<and> story_failure failingParse (failingService (storyRequest (historyText (storyLog startedApp))
         ''Search the room'' (inventory (gameState startedApp)) (currentQuest (gameState startedApp))))
   \<and> (\<exists>s' c. handleAction failingParse (Inr failingService) 1000 1000 1200 1200
                ''Search the room'' startedApp = Completed s' c
          \<and> gameState s' = gameState startedApp
          \<and> currentChoices s' = [''Try again''])"
  using C3_story_fallback [where P = failingParse and G = failingService and h = "[]"
          and a = "''Search the room''" and i = "[]" and q = "''Awaken and find your purpose.''"
          and s = startedApp and act = "''Search the room''"
          and ?t1.0 = 1000 and ?t2.0 = 1000 and ?t3.0 = 1200 and ?t4.0 = 1200]
  by (auto simp: failingService_def startedApp_def init_def init_continue_def
        checkAndRequestApiKey_def initialApp_def initialGameState_def)

section \<open>Submissions while a narrative call is outstanding\<close>

text \<open>
  Claim C4. An action submitted while \<open>loading\<close> is set has no effect: the submission
  returns early without a narrative call, and the whole state (story log, game state,
  active choices, in-flight flag) is the one before, whatever the parser, the client and the
  backend would do.
\<close>

theorem C4_ignored_while_loading:
  "loading s \<Longrightarrow>
     handleAction_submit t1 t2 a s = None
     \<and> handleAction P C t1 t2 t3 t4 a s = Completed s None
     \<and> step s (Submit t1 t2 a) = s"
  by (simp add: handleAction_def handleAction_submit_def)

theorem C4_ignored_while_loading_witness:
  "loading awaitingApp
   \<and> handleAction_submit 1100 1100 ''Call out for help'' awaitingApp = None
   \<and> handleAction failingParse (Inr failingService) 1100 1100 1200 1200 ''Call out for help''
        awaitingApp = Completed awaitingApp None
   \<and> step awaitingApp (Submit 1100 1100 ''Call out for help'') = awaitingApp"
proof -
  have l: "loading awaitingApp"
    by (simp add: awaitingApp_def startedApp_def init_def init_continue_def
        checkAndRequestApiKey_def initialApp_def handleAction_submit_def)
  show ?thesis
    using l C4_ignored_while_loading [OF l, of 1100 1100 "''Call out for help''"
        failingParse "Inr failingService" 1200 1200]
    by simp
qed

section \<open>Credential check and game start\<close>

text \<open>
  Claim C5, as stated, fails: the hook reports that no credential is selected, the check
  opens the selection flow and returns true without asking the hook again, and the initial
  segment is created with no reload prompt shown.
\<close>

theorem C5_counterexample:
  "\<not> hasSelectedApiKey \<lparr>hasSelectedApiKey = False\<rparr>
   \<and> snd (checkAndRequestApiKey (Some \<lparr>hasSelectedApiKey = False\<rparr>))
       = [Call_hasSelectedApiKey, Call_openSelectKey]
   \<and> storyLog (fst (init (Some \<lparr>hasSelectedApiKey = False\<rparr>) 0 initialApp)) = [initialSegment 0]
   \<and> \<not> reloadPromptShown (fst (init (Some \<lparr>hasSelectedApiKey = False\<rparr>) 0 initialApp))"
  by (simp add: checkAndRequestApiKey_def init_def init_continue_def reloadPromptShown_def)

lemma checkAndRequestApiKey_True: "fst (checkAndRequestApiKey w) = True"
  by (cases w) (simp_all add: checkAndRequestApiKey_def Let_def)

text \<open>
  Claim C5, amended. When the hook reports that no credential is selected, the check opens
  the credential-selection flow and then reports success without asking the hook again; the
  check reports success in every case. Game start is gated on what the check reported: on
  false no initial segment is created and the reload prompt is shown, on true the initial
  segment is created and no prompt is shown. So initialization always proceeds.
\<close>

theorem C5_credential_gate:
  "fst (checkAndRequestApiKey w) = True
   \<and> ((\<exists>h. w = Some h \<and> \<not> hasSelectedApiKey h)
        \<longrightarrow> snd (checkAndRequestApiKey w) = [Call_hasSelectedApiKey, Call_openSelectKey])
   \<and> storyLog (fst (init_continue False now s)) = storyLog s
   \<and> snd (init_continue False now s) = None
   \<and> reloadPromptShown (fst (init_continue False now s))
   \<and> storyLog (fst (init_continue True now s)) = [initialSegment now]
   \<and> \<not> reloadPromptShown (fst (init_continue True now s))
   \<and> storyLog (fst (init w now s)) = [initialSegment now]
   \<and> \<not> reloadPromptShown (fst (init w now s))"
proof -
  have flow: "(\<exists>h. w = Some h \<and> \<not> hasSelectedApiKey h)
        \<longrightarrow> snd (checkAndRequestApiKey w) = [Call_hasSelectedApiKey, Call_openSelectKey]"
    by (auto simp: checkAndRequestApiKey_def)
  have gate: "storyLog (fst (init_continue False now s)) = storyLog s
      \<and> snd (init_continue False now s) = None
      \<and> reloadPromptShown (fst (init_continue False now s))
      \<and> storyLog (fst (init_continue True now s)) = [initialSegment now]
      \<and> \<not> reloadPromptShown (fst (init_continue True now s))"
    by (simp add: init_continue_def reloadPromptShown_def)
  have whole: "storyLog (fst (init w now s)) = [initialSegment now]
      \<and> \<not> reloadPromptShown (fst (init w now s))"
    by (simp add: init_def checkAndRequestApiKey_True init_continue_def reloadPromptShown_def)
  from flow gate whole show ?thesis
    by (simp add: checkAndRequestApiKey_True)
qed

theorem C5_credential_gate_witness:
  "(\<exists>h. Some \<lparr>hasSelectedApiKey = False\<rparr> = Some h \<and> \<not> hasSelectedApiKey h)
   \<and> checkAndRequestApiKey (Some \<lparr>hasSelectedApiKey = False\<rparr>)
       = (True, [Call_hasSelectedApiKey, Call_openSelectKey])
   \<and> storyLog (fst (init_continue False 0 initialApp)) = []
   \<and> reloadPromptShown (fst (init_continue False 0 initialApp))
   \<and> storyLog (fst (init (Some \<lparr>hasSelectedApiKey = False\<rparr>) 0 initialApp)) = [initialSegment 0]"
  using C5_credential_gate [of "Some \<lparr>hasSelectedApiKey = False\<rparr>" 0 initialApp]
  by (simp add: initialApp_def prod_eq_iff)

section \<open>Scene images\<close>



lemma extract_image_nonempty: "extract_image ps = Some u \<Longrightarrow> u \<noteq> []"
  by (induction ps) (auto split: option.splits)

lemma generateSceneImage_nonempty: "generateSceneImage C p z = Inr (Some u) \<Longrightarrow> u \<noteq> []"
  by (auto simp: generateSceneImage_def image_try_def extract_image_nonempty
      split: sum.splits outcome.splits)




lemma afterSecondTurn_log:
  "storyLog afterSecondTurn =
     [initialSegment 0,
      userSegment 1000 1000 ''Search the room'', newSegment 1200 1200 fallback,
      userSegment 1200 1200 ''Try again'', newSegment 1200 1200 fallback]"
  by (simp add: afterSecondTurn_def afterFirstTurn_def run_def startedApp_def init_def
        init_continue_def checkAndRequestApiKey_def initialApp_def handleAction_submit_def
        handleAction_resume_def)





section \<open>History passed to the narrative call\<close>

lemma slice_from_neg: "0 < k \<Longrightarrow> slice_from (- int k) xs = drop (length xs - k) xs"
  unfolding slice_from_def Let_def by (cases "k \<le> length xs") (simp_all add: max_def nat_diff_distrib')

lemma last_k: "rev (take k (rev xs)) = drop (length xs - k) xs"
  by (simp add: rev_take)

lemma slice_from_short: "length xs \<le> k \<Longrightarrow> 0 < k \<Longrightarrow> slice_from (- int k) xs = xs"
  by (simp add: slice_from_neg)


lemma slice5: "slice_from (- 5) xs = drop (length xs - 5) xs"
  using slice_from_neg [of 5 xs] by simp

lemma slice6_short: "length xs \<le> 5 \<Longrightarrow> slice_from (- 6) xs = xs"
  using slice_from_short [of xs 6] by simp

lemma historyText_last_five:
  "historyText segs = map text_seg (rev (take 5 (rev (filter (\<lambda>g. isUser g \<noteq> Some True) segs))))"
  by (simp only: historyText_def slice5 last_k)

lemma length_historyText: "length (historyText segs) \<le> 5"
  by (simp add: historyText_last_five)


lemma last_five_members:
  "g \<in> set (rev (take 5 (rev (filter P xs)))) \<Longrightarrow> P g \<and> g \<in> set xs"
proof -
  assume "g \<in> set (rev (take 5 (rev (filter P xs))))"
  then have "g \<in> set (take 5 (rev (filter P xs)))" by simp
  then have "g \<in> set (rev (filter P xs))" by (rule in_set_takeD)
  then show ?thesis by simp
qed

text \<open>
  Claim C7. When a submission is accepted, the history passed to the narrative call is the
  text of the last five segments of the log, at submission time and in log order, that are
  not user actions (fewer when the log has fewer); every segment it is taken from is a
  non-user segment of the log; and the context sent to the backend is exactly this history,
  joined by newlines (the \<^verbatim>\<open>slice(-6)\<close> inside the call drops nothing).
\<close>

theorem C7_history:
  "handleAction_submit t1 t2 act s = Some (s1, call) \<Longrightarrow>
     call_history call
       = map text_seg (rev (take 5 (rev (filter (\<lambda>g. isUser g \<noteq> Some True) (storyLog s)))))
     \<and> (\<forall>g \<in> set (rev (take 5 (rev (filter (\<lambda>g. isUser g \<noteq> Some True) (storyLog s))))).
            isUser g \<noteq> Some True \<and> g \<in> set (storyLog s))
     \<and> length (call_history call) \<le> 5
     \<and> req_context (storyRequest (call_history call) (call_action call)
          (call_inventory call) (call_quest call))
         = join [CHR 0x0A] (call_history call)"
proof -
  assume sub: "handleAction_submit t1 t2 act s = Some (s1, call)"
  then have h: "call_history call = historyText (storyLog s)"
    by (auto simp: handleAction_submit_def split: if_splits)
  have a: "call_history call
       = map text_seg (rev (take 5 (rev (filter (\<lambda>g. isUser g \<noteq> Some True) (storyLog s)))))"
    by (simp only: h historyText_last_five)
  have b: "\<forall>g \<in> set (rev (take 5 (rev (filter (\<lambda>g. isUser g \<noteq> Some True) (storyLog s))))).
            isUser g \<noteq> Some True \<and> g \<in> set (storyLog s)"
    using last_five_members [of _ "\<lambda>g. isUser g \<noteq> Some True" "storyLog s"] by blast
  have c: "length (call_history call) \<le> 5"
    by (simp only: h length_historyText)
  have d: "req_context (storyRequest (call_history call) (call_action call)
          (call_inventory call) (call_quest call))
         = join [CHR 0x0A] (call_history call)"
    by (simp add: storyRequest_def slice6_short [OF c])
  from a b c d show ?thesis by blast
qed

lemma longApp_log:
  "storyLog longApp =
     [initialSegment 0,
      userSegment 1000 1000 ''Search the room'', newSegment 1200 1200 torchDelta,
      userSegment 2000 2000 ''Use key'', newSegment 2200 2200 questDelta,
      userSegment 3000 3000 ''Go through'', newSegment 3200 3200 emptyQuestDelta,
      userSegment 4000 4000 ''Wait'', newSegment 4200 4200 fallback,
      userSegment 5000 5000 ''Try again'', newSegment 5200 5200 torchDelta]
   \<and> \<not> loading longApp"
  by (simp add: longApp_def run_def startedApp_def init_def init_continue_def
        checkAndRequestApiKey_def initialApp_def handleAction_submit_def handleAction_resume_def)

theorem C7_history_witness:
  "handleAction_submit 6000 6000 ''Leave'' longApp
     = Some (fst (the (handleAction_submit 6000 6000 ''Leave'' longApp)),
             snd (the (handleAction_submit 6000 6000 ''Leave'' longApp)))
   \<and> call_history (snd (the (handleAction_submit 6000 6000 ''Leave'' longApp)))
       = [narrative torchDelta, narrative questDelta, narrative emptyQuestDelta,
          narrative fallback, narrative torchDelta]
   \<and> newSegment 1200 1200 torchDelta
       \<in> set (rev (take 5 (rev (filter (\<lambda>g. isUser g \<noteq> Some True) (storyLog longApp)))))
   \<and> isUser (newSegment 1200 1200 torchDelta) \<noteq> Some True"
  using C7_history [of 6000 6000 "''Leave''" longApp
          "fst (the (handleAction_submit 6000 6000 ''Leave'' longApp))"
          "snd (the (handleAction_submit 6000 6000 ''Leave'' longApp))"]
  by (simp add: longApp_log handleAction_submit_def initialSegment_def userSegment_def
        newSegment_def)

section \<open>Image patch\<close>

lemma patch_absent:
  "k \<notin> id_seg ` set segs \<Longrightarrow>
     map (\<lambda>seg. if id_seg seg = k then seg\<lparr>imageUrl := u\<rparr> else seg) segs = segs"
  by (induction segs) auto

lemma patch_ids:
  "map id_seg (map (\<lambda>seg. if id_seg seg = k then seg\<lparr>imageUrl := u\<rparr> else seg) segs)
     = map id_seg segs"
  by (induction segs) auto

text \<open>
  Claim C8. When an image call has resolved with an image for segment id \<open>k\<close>, the patch
  keeps the log's length and the order of its ids, sets \<open>imageUrl\<close> on the segments whose
  id is \<open>k\<close> and changes no other field of them, leaves every other segment as it was,
  leaves the whole state unchanged when no segment has id \<open>k\<close>, and touches nothing of the
  state but the log.
\<close>

theorem C8_image_patch:
  "url \<noteq> [] \<Longrightarrow>
     length (storyLog (generateImageForSegment_resume k (Some url) s)) = length (storyLog s)
     \<and> map id_seg (storyLog (generateImageForSegment_resume k (Some url) s))
         = map id_seg (storyLog s)
     \<and> (\<forall>i < length (storyLog s).
           (id_seg (storyLog s ! i) = k \<longrightarrow>
              storyLog (generateImageForSegment_resume k (Some url) s) ! i
                = (storyLog s ! i)\<lparr>imageUrl := Some url\<rparr>)
         \<and> (id_seg (storyLog s ! i) \<noteq> k \<longrightarrow>
              storyLog (generateImageForSegment_resume k (Some url) s) ! i = storyLog s ! i))
     \<and> (k \<notin> id_seg ` set (storyLog s) \<longrightarrow> generateImageForSegment_resume k (Some url) s = s)
     \<and> (generateImageForSegment_resume k (Some url) s)\<lparr>storyLog := storyLog s\<rparr> = s"
proof -
  assume u: "url \<noteq> []"
  have r: "generateImageForSegment_resume k (Some url) s
      = s\<lparr>storyLog := map (\<lambda>seg. if id_seg seg = k then seg\<lparr>imageUrl := Some url\<rparr> else seg)
                         (storyLog s)\<rparr>"
    using u by (simp add: generateImageForSegment_resume_def)
  have absent: "k \<notin> id_seg ` set (storyLog s) \<longrightarrow> generateImageForSegment_resume k (Some url) s = s"
    using patch_absent [of k "storyLog s" "Some url"] by (simp add: r)
  show ?thesis
    using absent by (simp add: r patch_ids)
qed

theorem C8_image_patch_witness:
  "''data:image/png;base64,iVBORw0KGgo='' \<noteq> []
   \<and> storyLog (generateImageForSegment_resume ''init''
        (Some ''data:image/png;base64,iVBORw0KGgo='') awaitingApp)
       = [(initialSegment 0)\<lparr>imageUrl := Some ''data:image/png;base64,iVBORw0KGgo=''\<rparr>,
          userSegment 1000 1000 ''Search the room'']
   \<and> (1::nat) < length (storyLog awaitingApp)
   \<and> id_seg (storyLog awaitingApp ! 1) \<noteq> ''init''
   \<and> id_seg (storyLog awaitingApp ! 0) = ''init''
   \<and> ''missing'' \<notin> id_seg ` set (storyLog awaitingApp)
   \<and> generateImageForSegment_resume ''missing''
        (Some ''data:image/png;base64,iVBORw0KGgo='') awaitingApp = awaitingApp"
proof -
  have log: "storyLog awaitingApp = [initialSegment 0, userSegment 1000 1000 ''Search the room'']"
    by (simp add: awaitingApp_def startedApp_def init_def init_continue_def
        checkAndRequestApiKey_def initialApp_def handleAction_submit_def)
  have ids: "map id_seg (storyLog awaitingApp) = [''init'', ''1000-user'']"
    unfolding log by (simp add: initialSegment_def userSegment_def) code_simp
  have ids': "id_seg (initialSegment 0) = ''init''"
    "id_seg (userSegment 1000 1000 ''Search the room'') = ''1000-user''"
    using ids unfolding log by simp_all
  have u: "''data:image/png;base64,iVBORw0KGgo='' \<noteq> []" by simp
  show ?thesis
    using C8_image_patch [OF u, of "''init''" awaitingApp]
          C8_image_patch [OF u, of "''missing''" awaitingApp]
    by (simp add: log ids' generateImageForSegment_resume_def)
qed

section \<open>Segment ids\<close>

text \<open>
  The three kinds of id never collide with each other, and two readings give the same id
  only when they are equal. So the ids of a log are pairwise different whenever the
  readings taken at submissions are pairwise different and those taken at narrative
  resolutions are pairwise different.
\<close>

lemma digit_char_digit: "d < 10 \<Longrightarrow> digit_char d \<in> set ''0123456789''"
  unfolding digit_char_def by (rule nth_mem) simp

lemma digit_char_inj: "a < 10 \<Longrightarrow> b < 10 \<Longrightarrow> digit_char a = digit_char b \<Longrightarrow> a = b"
proof -
  assume a: "a < 10" and b: "b < 10" and e: "digit_char a = digit_char b"
  have d: "distinct ''0123456789''" by simp
  have la: "a < length ''0123456789''" using a by simp
  have lb: "b < length ''0123456789''" using b by simp
  from e have "''0123456789'' ! a = ''0123456789'' ! b" by (simp only: digit_char_def)
  with nth_eq_iff_index_eq [OF d la lb] show "a = b" by blast
qed

lemma toString_digits: "set (toString n) \<subseteq> set ''0123456789''"
proof (induction n rule: toString.induct)
  case (1 n)
  show ?case
  proof (cases "n < 10")
    case True
    then show ?thesis using digit_char_digit [of n] by (subst toString.simps) simp
  next
    case False
    have m: "n mod 10 < 10" by simp
    from False 1 have ih: "set (toString (n div 10)) \<subseteq> set ''0123456789''" by simp
    have eq: "toString n = toString (n div 10) @ [digit_char (n mod 10)]"
      using False by (subst toString.simps) simp
    show ?thesis
      unfolding eq using ih digit_char_digit [OF m] by simp
  qed
qed

lemma toString_nonempty: "toString n \<noteq> []"
  by (subst toString.simps) simp

lemma toString_inj: "toString a = toString b \<Longrightarrow> a = b"
proof (induction a arbitrary: b rule: toString.induct)
  case (1 n)
  show ?case
  proof (cases "n < 10")
    case True
    then have en: "toString n = [digit_char n]" by (subst toString.simps) simp
    show ?thesis
    proof (cases "b < 10")
      case bs: True
      then have "toString b = [digit_char b]" by (subst toString.simps) simp
      with en "1.prems" have "digit_char n = digit_char b" by simp
      with True bs show ?thesis by (rule digit_char_inj)
    next
      case bl: False
      then have "toString b = toString (b div 10) @ [digit_char (b mod 10)]"
        by (subst toString.simps) simp
      with en "1.prems" have "toString (b div 10) = []" by simp
      with toString_nonempty show ?thesis by blast
    qed
  next
    case False
    then have en: "toString n = toString (n div 10) @ [digit_char (n mod 10)]"
      by (subst toString.simps) simp
    show ?thesis
    proof (cases "b < 10")
      case bs: True
      then have "toString b = [digit_char b]" by (subst toString.simps) simp
      with en "1.prems" have "toString (n div 10) = []" by simp
      with toString_nonempty show ?thesis by blast
    next
      case bl: False
      then have eb: "toString b = toString (b div 10) @ [digit_char (b mod 10)]"
        by (subst toString.simps) simp
      from en eb "1.prems" have q: "toString (n div 10) = toString (b div 10)"
        and r: "digit_char (n mod 10) = digit_char (b mod 10)" by simp_all
      from "1.IH" [OF False q] have dq: "n div 10 = b div 10" .
      have "n mod 10 = b mod 10"
        using r by (intro digit_char_inj) simp_all
      with dq show ?thesis by (metis div_mult_mod_eq)
    qed
  qed
qed

lemma user_id_not_numeral: "toString a @ ''-user'' \<noteq> toString b"
proof
  assume "toString a @ ''-user'' = toString b"
  then have "CHR ''-'' \<in> set (toString b)" by (metis in_set_conv_decomp)
  with toString_digits [of b] show False by auto
qed

lemma init_not_numeral: "''init'' \<noteq> toString b"
proof
  assume "''init'' = toString b"
  then have "CHR ''i'' \<in> set (toString b)" by (metis list.set_intros(1))
  with toString_digits [of b] show False by auto
qed

lemma init_not_user_id: "''init'' \<noteq> toString a @ ''-user''"
proof
  assume "''init'' = toString a @ ''-user''"
  then have "length ''init'' = length (toString a @ ''-user'')" by (rule arg_cong)
  then show False by simp
qed

lemma user_id_inj: "toString a @ ''-user'' = toString b @ ''-user'' \<Longrightarrow> a = b"
  by (simp add: toString_inj)

lemma readings_snoc:
  "submit_readings (evs @ [e]) = submit_readings evs @ submit_reading e"
  "resolve_readings (evs @ [e]) = resolve_readings evs @ resolve_reading e"
  by (simp_all add: submit_readings_def resolve_readings_def)

lemma run_snoc: "run (evs @ [e]) s = step (run evs s) e"
  by (simp add: run_def)

lemma ids_invariant:
  "distinct (submit_readings evs) \<Longrightarrow> distinct (resolve_readings evs) \<Longrightarrow>
     distinct (map id_seg (storyLog (session w now evs)))
     \<and> set (map id_seg (storyLog (session w now evs))) \<subseteq> ids_from evs"
proof (induction evs rule: rev_induct)
  case Nil
  show ?case
    by (simp add: session_def run_def init_def init_continue_def checkAndRequestApiKey_True
        initialSegment_def ids_from_def)
next
  case (snoc e evs)
  let ?s = "session w now evs"
  have st: "session w now (evs @ [e]) = step ?s e"
    by (simp add: session_def run_snoc)
  from snoc.prems have ds: "distinct (submit_readings evs)" and dr: "distinct (resolve_readings evs)"
    by (simp_all add: readings_snoc)
  from snoc.IH [OF ds dr] have d: "distinct (map id_seg (storyLog ?s))"
    and sub: "set (map id_seg (storyLog ?s)) \<subseteq> ids_from evs" by simp_all
  have mono: "ids_from evs \<subseteq> ids_from (evs @ [e])"
    by (auto simp: ids_from_def readings_snoc)
  show ?case
  proof (cases e)
    case (Submit t u act)
    show ?thesis
    proof (cases "loading ?s")
      case True
      then have "step ?s e = ?s" by (simp add: Submit handleAction_submit_def)
      with d sub mono show ?thesis by (simp only: st) blast
    next
      case False
      then have log: "map id_seg (storyLog (step ?s e)) = map id_seg (storyLog ?s) @ [toString t @ ''-user'']"
        by (simp add: Submit handleAction_submit_def userSegment_def)
      from snoc.prems(1) have fresh: "t \<notin> set (submit_readings evs)"
        by (simp add: readings_snoc Submit)
      have new: "toString t @ ''-user'' \<notin> ids_from evs"
        using fresh
        by (auto simp: ids_from_def init_not_user_id [symmetric] user_id_not_numeral
            dest!: toString_inj)
      have mem: "toString t @ ''-user'' \<in> ids_from (evs @ [e])"
        by (simp add: ids_from_def readings_snoc Submit)
      from d sub new mono mem show ?thesis
        by (simp only: st log) auto
    qed
  next
    case (NarrativeResolved t u r)
    show ?thesis
    proof (cases "loading ?s")
      case False
      then have "step ?s e = ?s" by (simp add: NarrativeResolved)
      with d sub mono show ?thesis by (simp only: st) blast
    next
      case True
      then have log: "map id_seg (storyLog (step ?s e)) = map id_seg (storyLog ?s) @ [toString t]"
        by (simp add: NarrativeResolved handleAction_resume_def newSegment_def)
      from snoc.prems(2) have fresh: "t \<notin> set (resolve_readings evs)"
        by (simp add: readings_snoc NarrativeResolved)
      have new: "toString t \<notin> ids_from evs"
        using fresh
        by (auto simp: ids_from_def init_not_numeral [symmetric] user_id_not_numeral [symmetric]
            dest!: toString_inj)
      have mem: "toString t \<in> ids_from (evs @ [e])"
        by (simp add: ids_from_def readings_snoc NarrativeResolved)
      from d sub new mono mem show ?thesis
        by (simp only: st log) auto
    qed
  next
    case (ImageResolved k url)
    have "map id_seg (storyLog (step ?s e)) = map id_seg (storyLog ?s)"
      by (simp add: ImageResolved generateImageForSegment_resume_def patch_ids)
    with d sub mono show ?thesis by (simp only: st) auto
  qed
qed

lemma ids_unique_distinct_readings:
  "distinct (submit_readings evs) \<Longrightarrow> distinct (resolve_readings evs) \<Longrightarrow>
     distinct (map id_seg (storyLog (session w now evs)))"
  using ids_invariant by blast

lemma session_inventory_distinct: "distinct (inventory (gameState (session w now evs)))"
proof (induction evs rule: rev_induct)
  case Nil
  show ?case
    by (simp add: session_def run_def gameState_init initialApp_def initialGameState_def)
next
  case (snoc e evs)
  have st: "session w now (evs @ [e]) = step (session w now evs) e"
    by (simp add: session_def run_snoc)
  show ?case
    unfolding st using snoc.IH
    by (cases e)
       (auto simp: handleAction_submit_def handleAction_resume_def updateGameState_def
          distinct_mergeInventory generateImageForSegment_resume_def)
qed

text \<open>
  Claim C9 at a failing input: two turns whose narrative segments are created at the same
  reading of the clock. Both narrative segments get the id of that reading, so the log holds
  the same id twice.
\<close>

theorem C9_duplicate_ids:
  "handleAction failingParse (Inr failingService) 1000 1000 1200 1200 ''Search the room'' startedApp
     = Completed afterFirstTurn (Some (''1200'', ''A foggy void of uncertainty.''))
   \<and> handleAction failingParse (Inr failingService) 1200 1200 1200 1200 ''Try again'' afterFirstTurn
     = Completed afterSecondTurn (Some (''1200'', ''A foggy void of uncertainty.''))
   \<and> map id_seg (storyLog afterSecondTurn) = [''init'', ''1000-user'', ''1200'', ''1200-user'', ''1200'']
   \<and> \<not> distinct (map id_seg (storyLog afterSecondTurn))"
proof -
  have t: "toString 1000 = ''1000''" "toString 1200 = ''1200''" by code_simp+
  have idle: "\<not> loading startedApp" "\<not> loading afterFirstTurn"
    by (simp_all add: afterFirstTurn_def run_def startedApp_def init_def init_continue_def
        checkAndRequestApiKey_def initialApp_def handleAction_submit_def handleAction_resume_def)
  have fail: "story_failure failingParse (failingService req)" for req
    by (simp add: failingService_def)
  have first: "handleAction failingParse (Inr failingService) 1000 1000 1200 1200
        ''Search the room'' startedApp
     = Completed afterFirstTurn (Some (''1200'', ''A foggy void of uncertainty.''))"
    by (simp add: handleAction_idle_fallback [where P = failingParse and G = failingService,
          OF idle(1) fail] afterFirstTurn_def run_def
        handleAction_submit_def idle handleAction_resume_def fallback_def t)
  have second: "handleAction failingParse (Inr failingService) 1200 1200 1200 1200
        ''Try again'' afterFirstTurn
     = Completed afterSecondTurn (Some (''1200'', ''A foggy void of uncertainty.''))"
    by (simp add: handleAction_idle_fallback [where P = failingParse and G = failingService,
          OF idle(2) fail] afterSecondTurn_def run_def
        handleAction_submit_def idle handleAction_resume_def fallback_def t)
  have ids: "map id_seg (storyLog afterSecondTurn)
      = [''init'', ''1000-user'', ''1200'', ''1200-user'', ''1200'']"
    by (simp add: afterSecondTurn_log initialSegment_def userSegment_def newSegment_def t)
  from first second ids show ?thesis by simp
qed

end
